theory Spec2Isabelle
  imports Main "HOL-Library.Word" "HOL-Library.Code_Target_Nat"
begin

section \<open>The cfsm state machine engine (cfsm.hpp, C++14 configuration)\<close>

text \<open>
  The engine is the class template \<open>state_machine<base_state, type, state_pool, states...>\<close>.
  Its template arguments and the user's classes are the configuration; the objects it
  allocates and the function-local static of \<open>get_pool\<close> are process-wide state (the
  world); the member \<open>p_current_state\<close> is the state of one machine.

  A class is a value of the type parameter \<open>'c\<close>. Pointers are 64-bit words with the
  null pointer 0, \<open>void *dataptr\<close> included.
\<close>

type_synonym ptr = "64 word"
type_synonym byte = "8 word"

datatype alloc_type = LAZY | PREALLOCED | INTERNAL

text \<open>
  The configuration: the template parameter \<open>type\<close>, the pack \<open>states...\<close>, the static
  member function \<open>type_id()\<close> of each state class, the member \<open>exists\<close> of each
  specialization of \<open>cfsm::transition<from, to>\<close> (false in the generic template), and
  the inheritance between the user's classes: \<open>derived_from D B\<close> says that class \<open>D\<close>
  has \<open>B\<close> as a public base class, directly or through other classes.
\<close>

record 'c config =
  type :: alloc_type
  states :: "'c list"
  type_id :: "'c \<Rightarrow> nat"
  exists :: "'c \<Rightarrow> 'c \<Rightarrow> bool"
  derived_from :: "'c \<Rightarrow> 'c \<Rightarrow> bool"

text \<open>
  The world: the object store (slot \<open>i\<close> holds the dynamic class of the live object at
  address \<open>i + 1\<close>, or \<open>None\<close> once that object is destroyed), the array behind the
  template argument \<open>state_pool\<close> (\<open>None\<close> for \<open>nullptr\<close>), and the static \<open>pool_\<close> of
  \<open>get_pool\<close> (\<open>None\<close> for \<open>nullptr\<close>, else the array \<open>pool_ptr\<close> of the pool).
\<close>

record 'c world =
  heap :: "'c option list"
  state_pool :: "ptr list option"
  internal_pool :: "ptr list option"

record machine =
  p_current_state :: ptr

text \<open>The calls into user code, each with the class that receives it and \<open>dataptr\<close>.\<close>

datatype 'c call =
  On_enter 'c ptr
  | On_exit 'c ptr
  | Transition_op 'c 'c ptr

text \<open>
  What a step of the engine can do besides return: the program is rejected at build
  time (a \<open>static_assert\<close> fails or \<open>enable_if\<close> removes the member), its behaviour is
  undefined (a dangling or out-of-range access), or \<open>operator new\<close> has no address left
  and throws \<open>std::bad_alloc\<close>.
\<close>

datatype fault = Ill_formed | Undefined | Bad_alloc

text \<open>The two messages of the \<open>std::runtime_error\<close> that the engine throws itself.\<close>

datatype exn = State_pointer_is_null | Failed_to_allocate_new_state

text \<open>
  The outcome of a public member function: it returns a value, or throws, in both cases
  leaving a world and a machine behind and having made a list of calls into user code;
  or it faults.
\<close>

datatype ('a, 'c) outcome =
  Returns 'a "'c world" machine "'c call list"
  | Throws exn "'c world" machine "'c call list"
  | Fault fault

subsection \<open>Objects\<close>

definition deref :: "'c world \<Rightarrow> ptr \<Rightarrow> 'c option" where
  "deref w p =
     (if p = 0 then None
      else if unat p - 1 < length (heap w) then heap w ! (unat p - 1)
      else None)"

text \<open>\<open>new C()\<close>: the object gets the next address, which is never reused.\<close>

definition new :: "'c \<Rightarrow> 'c world \<Rightarrow> fault + ptr \<times> 'c world" where
  "new C w =
     (if Suc (length (heap w)) < 2 ^ 64
      then Inr (of_nat (Suc (length (heap w))), w\<lparr>heap := heap w @ [Some C]\<rparr>)
      else Inl Bad_alloc)"

text \<open>\<open>delete p\<close>: nothing for a null pointer, undefined for a pointer to no live object.\<close>

definition delete :: "ptr \<Rightarrow> 'c world \<Rightarrow> fault + 'c world" where
  "delete p w =
     (if p = 0 then Inr w
      else case deref w p of
        None \<Rightarrow> Inl Undefined
      | Some C \<Rightarrow> Inr (w\<lparr>heap := (heap w)[unat p - 1 := None]\<rparr>))"

text \<open>
  \<open>dynamic_cast<T*>(p)\<close>: null for a null pointer; else \<open>p\<close> when the object's dynamic
  class is \<open>T\<close> or has \<open>T\<close> as a base, and null otherwise.
\<close>

definition dynamic_cast :: "'c config \<Rightarrow> 'c world \<Rightarrow> 'c \<Rightarrow> ptr \<Rightarrow> fault + ptr" where
  "dynamic_cast cfg w T p =
     (if p = 0 then Inr 0
      else case deref w p of
        None \<Rightarrow> Inl Undefined
      | Some D \<Rightarrow> if D = T \<or> derived_from cfg D T then Inr p else Inr 0)"

subsection \<open>The allocators\<close>

text \<open>The constructor of \<open>internal_state_pool\<close>: \<open>{ new states... }\<close>, left to right.\<close>

fun new_states :: "'c list \<Rightarrow> 'c world \<Rightarrow> fault + ptr list \<times> 'c world" where
  "new_states [] w = Inr ([], w)"
| "new_states (C # Cs) w =
     (case new C w of
        Inl f \<Rightarrow> Inl f
      | Inr (p, w') \<Rightarrow>
          (case new_states Cs w' of
             Inl f \<Rightarrow> Inl f
           | Inr (ps, w'') \<Rightarrow> Inr (p # ps, w'')))"

text \<open>The destructor of \<open>internal_state_pool\<close>: \<open>delete pool_ptr[i]\<close> for each \<open>i\<close>.\<close>

fun delete_each :: "ptr list \<Rightarrow> 'c world \<Rightarrow> fault + 'c world" where
  "delete_each [] w = Inr w"
| "delete_each (p # ps) w =
     (case delete p w of
        Inl f \<Rightarrow> Inl f
      | Inr w' \<Rightarrow> delete_each ps w')"

definition get_pool :: "'c config \<Rightarrow> 'c world \<Rightarrow> fault + ptr list \<times> 'c world" where
  "get_pool cfg w =
     (case internal_pool w of
        Some pool \<Rightarrow> Inr (pool, w)
      | None \<Rightarrow>
          (case new_states (states cfg) w of
             Inl f \<Rightarrow> Inl f
           | Inr (pool, w') \<Rightarrow> Inr (pool, w'\<lparr>internal_pool := Some pool\<rparr>)))"

text \<open>
  \<open>state_allocator::state(pool, type_id)\<close> and \<open>state_allocator::state(type_id)\<close>, with
  \<open>size\<close> passed as \<open>sizeof...(states)\<close>. Reading an array through a null pointer or beyond its
  end is undefined.
\<close>

definition state_of_pool :: "nat \<Rightarrow> ptr list option \<Rightarrow> nat \<Rightarrow> fault + ptr" where
  "state_of_pool n pool tid =
     (if tid < n
      then (case pool of
              None \<Rightarrow> Inl Undefined
            | Some ps \<Rightarrow> if tid < length ps then Inr (ps ! tid) else Inl Undefined)
      else Inr 0)"

text \<open>The three overloads of \<open>allocate_state<new_state>()\<close>, selected by \<open>type\<close>.\<close>

definition allocate_state :: "'c config \<Rightarrow> 'c \<Rightarrow> 'c world \<Rightarrow> fault + ptr \<times> 'c world" where
  "allocate_state cfg new_state w =
     (case type cfg of
        LAZY \<Rightarrow> new new_state w
      | PREALLOCED \<Rightarrow>
          (case state_of_pool (length (states cfg)) (state_pool w) (type_id cfg new_state) of
             Inl f \<Rightarrow> Inl f
           | Inr p \<Rightarrow> Inr (p, w))
      | INTERNAL \<Rightarrow>
          (case get_pool cfg w of
             Inl f \<Rightarrow> Inl f
           | Inr (pool, w') \<Rightarrow>
               (case state_of_pool (length (states cfg)) (Some pool) (type_id cfg new_state) of
                  Inl f \<Rightarrow> Inl f
                | Inr p \<Rightarrow> Inr (p, w'))))"

definition delete_current_state :: "'c config \<Rightarrow> 'c world \<Rightarrow> machine \<Rightarrow> fault + 'c world \<times> machine" where
  "delete_current_state cfg w m =
     (case (if type cfg = LAZY then delete (p_current_state m) w else Inr w) of
        Inl f \<Rightarrow> Inl f
      | Inr w' \<Rightarrow> Inr (w', m\<lparr>p_current_state := 0\<rparr>))"

text \<open>
  \<open>delete_pool\<close>: empty unless \<open>type\<close> is \<open>INTERNAL\<close>; there it takes the pool from
  \<open>get_pool\<close> (which builds one when there is none), destroys it and resets the static.
\<close>

definition delete_pool :: "'c config \<Rightarrow> 'c world \<Rightarrow> fault + 'c world" where
  "delete_pool cfg w =
     (if type cfg = INTERNAL
      then (case get_pool cfg w of
              Inl f \<Rightarrow> Inl f
            | Inr (pool, w') \<Rightarrow>
                (case delete_each pool w' of
                   Inl f \<Rightarrow> Inl f
                 | Inr w'' \<Rightarrow> Inr (w''\<lparr>internal_pool := None\<rparr>)))
      else Inr w)"

subsection \<open>The public member functions\<close>

text \<open>\<open>is_valid_state<T>()\<close>: \<open>T\<close> is one of \<open>states...\<close>.\<close>

definition is_valid_state :: "'c config \<Rightarrow> 'c \<Rightarrow> bool" where
  "is_valid_state cfg T = (T \<in> set (states cfg))"

definition start :: "'c config \<Rightarrow> 'c \<Rightarrow> ptr \<Rightarrow> 'c world \<Rightarrow> machine \<Rightarrow> (unit, 'c) outcome" where
  "start cfg initial_state dataptr w m =
     (if \<not> is_valid_state cfg initial_state then Fault Ill_formed
      else case allocate_state cfg initial_state w of
        Inl f \<Rightarrow> Fault f
      | Inr (p, w') \<Rightarrow>
          if p = 0
          then Throws State_pointer_is_null w' (m\<lparr>p_current_state := p\<rparr>) []
          else (case deref w' p of
                  None \<Rightarrow> Fault Undefined
                | Some D \<Rightarrow>
                    Returns () w' (m\<lparr>p_current_state := p\<rparr>) [On_enter D dataptr]))"

definition transition ::
  "'c config \<Rightarrow> 'c \<Rightarrow> 'c \<Rightarrow> ptr \<Rightarrow> 'c world \<Rightarrow> machine \<Rightarrow> (bool, 'c) outcome" where
  "transition cfg from_state to_state dataptr w m =
     (if \<not> exists cfg from_state to_state then Fault Ill_formed
      else if \<not> is_valid_state cfg from_state then Fault Ill_formed
      else if \<not> is_valid_state cfg to_state then Fault Ill_formed
      else case dynamic_cast cfg w from_state (p_current_state m) of
        Inl f \<Rightarrow> Fault f
      | Inr q \<Rightarrow>
          if q = 0 then Returns False w m []
          else if p_current_state m = 0 then Throws State_pointer_is_null w m []
          else (case allocate_state cfg to_state w of
                  Inl f \<Rightarrow> Fault f
                | Inr (p_new_state, w1) \<Rightarrow>
                    if p_new_state = 0 then Throws Failed_to_allocate_new_state w1 m []
                    else (case deref w1 (p_current_state m) of
                            None \<Rightarrow> Fault Undefined
                          | Some D \<Rightarrow>
                              (case (if type cfg = LAZY
                                     then delete (p_current_state m) w1 else Inr w1) of
                                 Inl f \<Rightarrow> Fault f
                               | Inr w2 \<Rightarrow>
                                   (case deref w2 p_new_state of
                                      None \<Rightarrow> Fault Undefined
                                    | Some E \<Rightarrow>
                                        Returns True w2 (m\<lparr>p_current_state := p_new_state\<rparr>)
                                          [On_exit D dataptr,
                                           Transition_op from_state to_state dataptr,
                                           On_enter E dataptr])))))"

definition stop :: "'c config \<Rightarrow> ptr \<Rightarrow> 'c world \<Rightarrow> machine \<Rightarrow> (unit, 'c) outcome" where
  "stop cfg dataptr w m =
     (if p_current_state m = 0 then Returns () w m []
      else case deref w (p_current_state m) of
        None \<Rightarrow> Fault Undefined
      | Some D \<Rightarrow>
          (case delete_current_state cfg w m of
             Inl f \<Rightarrow> Fault f
           | Inr (w1, m1) \<Rightarrow>
               (case delete_pool cfg w1 of
                  Inl f \<Rightarrow> Fault f
                | Inr w2 \<Rightarrow> Returns () w2 m1 [On_exit D dataptr])))"

text \<open>\<open>state<state_type>()\<close>, the introspection: a \<open>dynamic_cast\<close> of the current pointer.\<close>

definition state :: "'c config \<Rightarrow> 'c \<Rightarrow> 'c world \<Rightarrow> machine \<Rightarrow> fault + ptr" where
  "state cfg state_type w m = dynamic_cast cfg w state_type (p_current_state m)"

text \<open>
  The object representation of a pointer: \<open>sizeof(p_current_state)\<close> bytes, least
  significant first.
\<close>

definition sizeof_ptr :: nat where
  "sizeof_ptr = 8"

fun le_bytes :: "nat \<Rightarrow> nat \<Rightarrow> byte list" where
  "le_bytes 0 v = []"
| "le_bytes (Suc n) v = of_nat (v mod 256) # le_bytes n (v div 256)"

fun le_value :: "byte list \<Rightarrow> nat" where
  "le_value [] = 0"
| "le_value (b # bs) = unat b + 256 * le_value bs"

definition ptr_bytes :: "ptr \<Rightarrow> byte list" where
  "ptr_bytes p = le_bytes sizeof_ptr (unat p)"

definition bytes_ptr :: "byte list \<Rightarrow> ptr" where
  "bytes_ptr bs = of_nat (le_value (take sizeof_ptr bs))"

text \<open>
  \<open>save(pdata, datalen)\<close> and \<open>load(pdata, datalen)\<close>. \<open>pdata\<close> is \<open>None\<close> for a null
  pointer and else the char array it points to; the value returned by \<open>save\<close> is the
  byte count together with the array as \<open>save\<close> leaves it. An array shorter than the
  pointer that is written to it or read from it is an out-of-range access.
\<close>

definition save ::
  "byte list option \<Rightarrow> nat \<Rightarrow> 'c world \<Rightarrow> machine \<Rightarrow> (nat \<times> byte list option, 'c) outcome" where
  "save pdata datalen w m =
     (case pdata of
        None \<Rightarrow> Returns (0, pdata) w m []
      | Some buf \<Rightarrow>
          if datalen < sizeof_ptr then Returns (0, pdata) w m []
          else if length buf < sizeof_ptr then Fault Undefined
          else Returns
                 (sizeof_ptr, Some (ptr_bytes (p_current_state m) @ drop sizeof_ptr buf))
                 w (m\<lparr>p_current_state := 0\<rparr>) [])"

definition load ::
  "byte list option \<Rightarrow> nat \<Rightarrow> 'c world \<Rightarrow> machine \<Rightarrow> (nat, 'c) outcome" where
  "load pdata datalen w m =
     (case pdata of
        None \<Rightarrow> Returns 0 w m []
      | Some buf \<Rightarrow>
          if datalen < sizeof_ptr then Returns 0 w m []
          else if length buf < sizeof_ptr then Fault Undefined
          else Returns sizeof_ptr w (m\<lparr>p_current_state := bytes_ptr buf\<rparr>) [])"

text \<open>The destructor \<open>~state_machine()\<close>.\<close>

definition destroy :: "'c config \<Rightarrow> 'c world \<Rightarrow> machine \<Rightarrow> (unit, 'c) outcome" where
  "destroy cfg w m =
     (if p_current_state m = 0 then Returns () w m []
      else case delete_current_state cfg w m of
        Inl f \<Rightarrow> Fault f
      | Inr (w1, m1) \<Rightarrow>
          (case delete_pool cfg w1 of
             Inl f \<Rightarrow> Fault f
           | Inr w2 \<Rightarrow> Returns () w2 m1 []))"

text \<open>One call after another: the second runs when the first returns.\<close>

fun and_then ::
  "('a, 'c) outcome \<Rightarrow> ('c world \<Rightarrow> machine \<Rightarrow> ('b, 'c) outcome) \<Rightarrow> ('b, 'c) outcome" where
  "and_then (Returns v w m cs) f =
     (case f w m of
        Returns v' w' m' cs' \<Rightarrow> Returns v' w' m' (cs @ cs')
      | Throws e w' m' cs' \<Rightarrow> Throws e w' m' (cs @ cs')
      | Fault x \<Rightarrow> Fault x)"
| "and_then (Throws e w m cs) f = Throws e w m cs"
| "and_then (Fault x) f = Fault x"

text \<open>
  The pool of an internal machine, when it is built, holds pointers to distinct live
  objects: the constructor of \<open>internal_state_pool\<close> leaves it so, and the destructor
  deletes every one of them.
\<close>

definition pool_intact :: "'c world \<Rightarrow> bool" where
  "pool_intact w =
     (case internal_pool w of
        None \<Rightarrow> True
      | Some pool \<Rightarrow> distinct pool \<and> (\<forall>p\<in>set pool. deref w p \<noteq> None))"

subsection \<open>The machines of examples/simple.cc\<close>

text \<open>
  \<open>test_lazy_allocator\<close> runs a lazy machine over \<open>state_a\<close>, \<open>state_b\<close>, \<open>state_c\<close> (classes
  without \<open>type_id()\<close>, which the lazy allocator never calls); the other tests run
  machines over \<open>state_1\<close> and \<open>state_2\<close>, whose type identifiers are 0 and 1.
\<close>

datatype simple_class = state_a | state_b | state_c | state_1 | state_2

definition fsm_lazy :: "simple_class config" where
  "fsm_lazy =
     \<lparr>type = LAZY, states = [state_a, state_b, state_c], type_id = (\<lambda>C. 0),
      exists = (\<lambda>f t. (f, t) \<in> {(state_a, state_b), (state_b, state_a), (state_a, state_c)}),
      derived_from = (\<lambda>D B. False)\<rparr>"

definition fsm_ext :: "simple_class config" where
  "fsm_ext =
     \<lparr>type = PREALLOCED, states = [state_1, state_2],
      type_id = (\<lambda>C. if C = state_1 then 0 else 1),
      exists = (\<lambda>f t. (f, t) \<in> {(state_1, state_2), (state_2, state_1)}),
      derived_from = (\<lambda>D B. False)\<rparr>"

definition fsm_int :: "simple_class config" where
  "fsm_int = fsm_ext\<lparr>type := INTERNAL\<rparr>"

text \<open>A world without objects, and one with the two objects of \<open>state_storage\<close> in \<open>state_pool\<close>.\<close>

definition no_objects :: "simple_class world" where
  "no_objects = \<lparr>heap = [], state_pool = None, internal_pool = None\<rparr>"

definition state_storage :: "simple_class world" where
  "state_storage =
     \<lparr>heap = [Some state_1, Some state_2], state_pool = Some [1, 2], internal_pool = None\<rparr>"

text \<open>The same array with the slot of \<open>state_2\<close> left null.\<close>

definition state_storage_hole :: "simple_class world" where
  "state_storage_hole =
     \<lparr>heap = [Some state_1], state_pool = Some [1, 0], internal_pool = None\<rparr>"

text \<open>The same array with both slots pointing to the \<open>state_1\<close> object.\<close>

definition state_storage_aliased :: "simple_class world" where
  "state_storage_aliased =
     \<lparr>heap = [Some state_1, Some state_2], state_pool = Some [1, 1], internal_pool = None\<rparr>"

text \<open>The world of \<open>test_serialization\<close>: the pool of an internal machine is built.\<close>

definition internal_storage :: "simple_class world" where
  "internal_storage =
     \<lparr>heap = [Some state_1, Some state_2], state_pool = None, internal_pool = Some [1, 2]\<rparr>"

definition fsm :: machine where
  "fsm = \<lparr>p_current_state = 0\<rparr>"

text \<open>
  A machine over a state class that has a subclass: \<open>child\<close> derives from \<open>parent\<close>, and
  the one transition is from \<open>parent\<close> to \<open>other\<close>.
\<close>

datatype family_class = parent | child | other

definition fsm_family :: "family_class config" where
  "fsm_family =
     \<lparr>type = LAZY, states = [parent, child, other], type_id = (\<lambda>C. 0),
      exists = (\<lambda>f t. f = parent \<and> t = other),
      derived_from = (\<lambda>D B. D = child \<and> B = parent)\<rparr>"

definition child_world :: "family_class world" where
  "child_world = \<lparr>heap = [Some child], state_pool = None, internal_pool = None\<rparr>"

section \<open>Properties\<close>

subsection \<open>The object representation of a pointer\<close>

lemma le_bytes_numeral:
  "le_bytes (numeral k) v = of_nat (v mod 256) # le_bytes (pred_numeral k) (v div 256)"
  by (simp only: numeral_eq_Suc [of k] le_bytes.simps)

lemma length_le_bytes: "length (le_bytes n v) = n"
  by (induction n arbitrary: v) auto

lemma le_value_le_bytes: "le_value (le_bytes n v) = v mod 256 ^ n"
proof (induction n arbitrary: v)
  case 0
  then show ?case by simp
next
  case (Suc n)
  have "unat (of_nat (v mod 256) :: byte) = v mod 256"
    by (simp add: unat_of_nat)
  then show ?case
    using Suc by (simp add: mod_mult2_eq)
qed

lemma length_ptr_bytes: "length (ptr_bytes p) = sizeof_ptr"
  by (simp add: ptr_bytes_def length_le_bytes)

lemma bytes_ptr_ptr_bytes: "bytes_ptr (ptr_bytes p @ bs) = p"
proof -
  have "unat p mod 256 ^ 8 = unat p"
    using unsigned_less [of p, where 'a = nat] by simp
  then show ?thesis
    by (simp add: bytes_ptr_def ptr_bytes_def length_le_bytes le_value_le_bytes sizeof_ptr_def)
qed

subsection \<open>Objects and allocation\<close>

lemma deref_null: "deref w 0 = None"
  by (simp add: deref_def)

lemma deref_SomeD:
  "deref w p = Some C \<Longrightarrow> p \<noteq> 0 \<and> unat p - 1 < length (heap w) \<and> heap w ! (unat p - 1) = Some C"
  by (auto simp: deref_def split: if_splits)

lemma unat_pred_inj: "p \<noteq> 0 \<Longrightarrow> q \<noteq> 0 \<Longrightarrow> p \<noteq> q \<Longrightarrow> unat p - 1 \<noteq> unat q - 1"
  for p q :: ptr
proof -
  assume "p \<noteq> 0" "q \<noteq> 0" "p \<noteq> q"
  then have "0 < unat p" "0 < unat q" "unat p \<noteq> unat q"
    using word_unat_eq_iff [of p q] by (simp_all add: unat_gt_0)
  then show ?thesis by simp
qed



lemma unat_new: "Suc n < 2 ^ 64 \<Longrightarrow> unat (of_nat (Suc n) :: ptr) = Suc n"
  by (rule of_nat_inverse [OF refl]) simp

lemma new_fresh:
  assumes "new C w = Inr (p, w1)"
  shows "unat p = Suc (length (heap w))" and "heap w1 = heap w @ [Some C]"
    and "state_pool w1 = state_pool w" and "internal_pool w1 = internal_pool w"
    and "Suc (length (heap w)) < 2 ^ 64"
proof -
  from assms have b: "Suc (length (heap w)) < 2 ^ 64"
    and p: "p = of_nat (Suc (length (heap w)))" and w1: "w1 = w\<lparr>heap := heap w @ [Some C]\<rparr>"
    by (simp_all add: new_def del: of_nat_Suc split: if_splits)
  show "unat p = Suc (length (heap w))" using b p unat_new by blast
  show "heap w1 = heap w @ [Some C]" "state_pool w1 = state_pool w"
    "internal_pool w1 = internal_pool w" using w1 by simp_all
  show "Suc (length (heap w)) < 2 ^ 64" by (rule b)
qed



lemma new_deref:
  assumes "new C w = Inr (p, w1)"
  shows "deref w p = None" and "deref w1 p = Some C"
    and "deref w q = Some D \<Longrightarrow> deref w1 q = Some D"
proof -
  note f = new_fresh [OF assms]
  have "p \<noteq> 0" using f(1) by auto
  then show "deref w p = None" "deref w1 p = Some C"
    using f by (simp_all add: deref_def)
  show "deref w q = Some D \<Longrightarrow> deref w1 q = Some D"
    using f(2) by (auto simp: deref_def nth_append split: if_splits)
qed

lemma delete_live:
  assumes "deref w q = Some C"
  shows "\<exists>w2. delete q w = Inr w2 \<and> (\<forall>p. p \<noteq> q \<longrightarrow> deref w2 p = deref w p)
           \<and> internal_pool w2 = internal_pool w \<and> state_pool w2 = state_pool w"
proof -
  have q: "q \<noteq> 0" using assms by (auto dest: deref_SomeD)
  have "deref (w\<lparr>heap := (heap w)[unat q - 1 := None]\<rparr>) p = deref w p" if "p \<noteq> q" for p
  proof (cases "p = 0")
    case True
    then show ?thesis by (simp add: deref_def)
  next
    case False
    then have "unat p - 1 \<noteq> unat q - 1" using q that by (rule unat_pred_inj)
    then show ?thesis by (simp add: deref_def)
  qed
  then show ?thesis using assms q by (simp add: delete_def)
qed

lemma new_states_sound:
  "new_states Cs w = Inr (ps, w') \<Longrightarrow>
     distinct ps
     \<and> (\<forall>p\<in>set ps. length (heap w) < unat p \<and> deref w' p \<noteq> None)
     \<and> (\<forall>q D. deref w q = Some D \<longrightarrow> deref w' q = Some D)
     \<and> length (heap w) \<le> length (heap w')
     \<and> internal_pool w' = internal_pool w \<and> state_pool w' = state_pool w"
proof (induction Cs arbitrary: w ps w')
  case Nil
  then show ?case by simp
next
  case (Cons C Cs)
  from Cons.prems obtain p w0 ps0 where
    n: "new C w = Inr (p, w0)" and r: "new_states Cs w0 = Inr (ps0, w')" and ps: "ps = p # ps0"
    by (auto split: sum.splits prod.splits)
  note f = new_fresh [OF n] and d = new_deref [OF n]
  note ih = Cons.IH [OF r]
  have len: "length (heap w0) = Suc (length (heap w))" using f(2) by simp
  have "p \<notin> set ps0"
  proof
    assume "p \<in> set ps0"
    then have "length (heap w0) < unat p" using ih by blast
    then show False using f(1) len by simp
  qed
  moreover have "deref w' p \<noteq> None" using ih d(2) by auto
  moreover have "\<forall>p\<in>set ps0. length (heap w) < unat p \<and> deref w' p \<noteq> None"
    using ih len by auto
  moreover have "\<forall>q D. deref w q = Some D \<longrightarrow> deref w' q = Some D"
    using ih d(3) by blast
  ultimately show ?case using ih ps f len by auto
qed

lemma delete_each_live:
  "distinct ps \<Longrightarrow> \<forall>p\<in>set ps. deref w p \<noteq> None \<Longrightarrow> \<exists>w'. delete_each ps w = Inr w'"
proof (induction ps arbitrary: w)
  case Nil
  then show ?case by simp
next
  case (Cons p ps)
  then obtain C where "deref w p = Some C" by auto
  from delete_live [OF this] obtain w2 where
    w2: "delete p w = Inr w2" "\<forall>q. q \<noteq> p \<longrightarrow> deref w2 q = deref w q" by blast
  have "\<forall>q\<in>set ps. deref w2 q \<noteq> None" using Cons.prems w2(2) by auto
  with Cons.IH [of w2] Cons.prems obtain w' where "delete_each ps w2 = Inr w'" by auto
  then show ?case using w2(1) by simp
qed

lemma allocate_state_keeps:
  assumes "allocate_state cfg T w = Inr (p, w1)" and "deref w q = Some D"
  shows "deref w1 q = Some D"
proof (cases "type cfg")
  case LAZY
  then show ?thesis using assms new_deref(3) [of T w p w1 q D] by (simp add: allocate_state_def)
next
  case PREALLOCED
  then show ?thesis using assms by (auto simp: allocate_state_def split: sum.splits)
next
  case INTERNAL
  show ?thesis
  proof (cases "internal_pool w")
    case None
    then obtain ps w' where n: "new_states (states cfg) w = Inr (ps, w')"
      and w1: "w1 = w'\<lparr>internal_pool := Some ps\<rparr>"
      using assms(1) INTERNAL by (auto simp: allocate_state_def get_pool_def split: sum.splits)
    have "deref w' q = Some D" using new_states_sound [OF n] assms(2) by blast
    then show ?thesis using w1 by (auto simp: deref_def split: if_splits)
  next
    case (Some pool)
    then show ?thesis using assms INTERNAL
      by (auto simp: allocate_state_def get_pool_def split: sum.splits)
  qed
qed

lemma allocate_state_lazy_fresh:
  "type cfg = LAZY \<Longrightarrow> allocate_state cfg T w = Inr (p, w1) \<Longrightarrow> deref w p = None"
  using new_deref(1) [of T w p w1] by (simp add: allocate_state_def)

text \<open>When the allocator yields a handle to an object of the requested class.\<close>

lemma lazy_allocate_state:
  assumes "type cfg = LAZY" and "Suc (length (heap w)) < 2 ^ 64"
  shows "\<exists>p w1. allocate_state cfg T w = Inr (p, w1) \<and> deref w1 p = Some T"
proof -
  obtain p w1 where n: "new T w = Inr (p, w1)"
    using assms(2) by (simp add: new_def)
  then show ?thesis using assms(1) new_deref(2) [OF n] by (simp add: allocate_state_def)
qed

lemma prealloced_allocate_state:
  assumes "type cfg = PREALLOCED" and "state_pool w = Some ps"
    and "type_id cfg T < length (states cfg)" and "type_id cfg T < length ps"
    and "deref w (ps ! type_id cfg T) = Some T"
  shows "allocate_state cfg T w = Inr (ps ! type_id cfg T, w)
         \<and> deref w (ps ! type_id cfg T) = Some T"
  using assms by (simp add: allocate_state_def state_of_pool_def)

lemma deref_internal_pool_update: "deref (w\<lparr>internal_pool := x\<rparr>) p = deref w p"
  by (simp add: deref_def)

lemma internal_allocate_intact:
  assumes "type cfg = INTERNAL" and "pool_intact w" and "allocate_state cfg T w = Inr (p, w1)"
  shows "\<exists>pool. internal_pool w1 = Some pool \<and> distinct pool \<and> (\<forall>q\<in>set pool. deref w1 q \<noteq> None)"
proof (cases "internal_pool w")
  case None
  then obtain ps w' where n: "new_states (states cfg) w = Inr (ps, w')"
    and w1: "w1 = w'\<lparr>internal_pool := Some ps\<rparr>"
    using assms by (auto simp: allocate_state_def get_pool_def split: sum.splits)
  show ?thesis using new_states_sound [OF n] w1 by (simp add: deref_internal_pool_update)
next
  case (Some pool)
  then have "w1 = w" using assms
    by (auto simp: allocate_state_def get_pool_def split: sum.splits)
  then show ?thesis using Some assms(2) by (simp add: pool_intact_def)
qed

lemma delete_pool_intact:
  assumes "internal_pool w = Some pool" and "distinct pool" and "\<forall>q\<in>set pool. deref w q \<noteq> None"
  shows "\<exists>w2. delete_pool cfg w = Inr w2"
proof -
  obtain w' where "delete_each pool w = Inr w'"
    using delete_each_live [OF assms(2,3)] by blast
  then show ?thesis using assms(1) by (simp add: delete_pool_def get_pool_def)
qed

subsection \<open>Transitions\<close>

text \<open>
  C1, as the claim states it, fails: the claim says that on a registered edge, from a
  current state of class \<open>From\<close>, \<open>transition<From, To>\<close> always runs the three calls
  and returns true. When the pool of a preallocated machine has a null slot for \<open>To\<close>,
  the guard after \<open>allocate_state\<close> throws and no call is made; when the slot holds an
  object of another class, the entry hook of that class runs and introspection does not
  report \<open>To\<close>.
\<close>

theorem transition_allocation_counterexample:
  "exists fsm_ext state_1 state_2
   \<and> is_valid_state fsm_ext state_1 \<and> is_valid_state fsm_ext state_2
   \<and> deref state_storage_hole (p_current_state (fsm\<lparr>p_current_state := 1\<rparr>)) = Some state_1
   \<and> transition fsm_ext state_1 state_2 7 state_storage_hole (fsm\<lparr>p_current_state := 1\<rparr>)
       = Throws Failed_to_allocate_new_state state_storage_hole (fsm\<lparr>p_current_state := 1\<rparr>) []
   \<and> deref state_storage_aliased (p_current_state (fsm\<lparr>p_current_state := 1\<rparr>)) = Some state_1
   \<and> transition fsm_ext state_1 state_2 7 state_storage_aliased (fsm\<lparr>p_current_state := 1\<rparr>)
       = Returns True state_storage_aliased (fsm\<lparr>p_current_state := 1\<rparr>)
           [On_exit state_1 7, Transition_op state_1 state_2 7, On_enter state_1 7]
   \<and> state fsm_ext state_2 state_storage_aliased (fsm\<lparr>p_current_state := 1\<rparr>) = Inr 0"
  by (simp add: fsm_ext_def state_storage_hole_def state_storage_aliased_def fsm_def
       transition_def is_valid_state_def dynamic_cast_def deref_def allocate_state_def
       state_of_pool_def state_def)

text \<open>
  C1, amended: for every registered edge \<open>(From, To)\<close>, on a machine whose current state
  object is of class \<open>From\<close>, and when the allocator yields a handle to an object of
  class \<open>To\<close>, \<open>transition<From, To>(data)\<close> calls \<open>on_exit\<close> of \<open>From\<close>, the transition
  action and \<open>on_enter\<close> of \<open>To\<close>, in that order and each with \<open>data\<close>, returns true, and
  leaves that handle as the current state, which \<open>state<To>()\<close> reports.
\<close>

theorem transition_registered_edge:
  "exists cfg From To \<and> is_valid_state cfg From \<and> is_valid_state cfg To
   \<and> deref w (p_current_state m) = Some From
   \<and> allocate_state cfg To w = Inr (p, w1) \<and> deref w1 p = Some To \<longrightarrow>
     (\<exists>w2. transition cfg From To d w m
              = Returns True w2 (m\<lparr>p_current_state := p\<rparr>)
                  [On_exit From d, Transition_op From To d, On_enter To d]
        \<and> state cfg To w2 (m\<lparr>p_current_state := p\<rparr>) = Inr p \<and> p \<noteq> 0)"
proof (intro impI, elim conjE)
  assume reg: "exists cfg From To" "is_valid_state cfg From" "is_valid_state cfg To"
    and cur: "deref w (p_current_state m) = Some From"
    and al: "allocate_state cfg To w = Inr (p, w1)" and new: "deref w1 p = Some To"
  have c0: "p_current_state m \<noteq> 0" and p0: "p \<noteq> 0"
    using cur new by (auto dest: deref_SomeD)
  have cast: "dynamic_cast cfg w From (p_current_state m) = Inr (p_current_state m)"
    using cur c0 by (simp add: dynamic_cast_def)
  have cur1: "deref w1 (p_current_state m) = Some From"
    using allocate_state_keeps [OF al cur] .
  obtain w2 where del: "(if type cfg = LAZY then delete (p_current_state m) w1 else Inr w1) = Inr w2"
    and new2: "deref w2 p = Some To"
  proof (cases "type cfg = LAZY")
    case True
    then have "deref w p = None" using al by (rule allocate_state_lazy_fresh)
    then have "p \<noteq> p_current_state m" using cur by auto
    moreover from delete_live [OF cur1] obtain w2 where
      "delete (p_current_state m) w1 = Inr w2"
      "\<forall>q. q \<noteq> p_current_state m \<longrightarrow> deref w2 q = deref w1 q" by blast
    ultimately show ?thesis using that [of w2] True new by simp
  next
    case False
    then show ?thesis using that [of w1] new by simp
  qed
  have "transition cfg From To d w m
          = Returns True w2 (m\<lparr>p_current_state := p\<rparr>)
              [On_exit From d, Transition_op From To d, On_enter To d]"
    using reg cast c0 al p0 cur1 del new2 by (simp add: transition_def)
  moreover have "state cfg To w2 (m\<lparr>p_current_state := p\<rparr>) = Inr p"
    using new2 p0 by (simp add: state_def dynamic_cast_def)
  ultimately show "\<exists>w2. transition cfg From To d w m
              = Returns True w2 (m\<lparr>p_current_state := p\<rparr>)
                  [On_exit From d, Transition_op From To d, On_enter To d]
        \<and> state cfg To w2 (m\<lparr>p_current_state := p\<rparr>) = Inr p \<and> p \<noteq> 0"
    using p0 by blast
qed

theorem transition_registered_edge_witness:
  "exists fsm_lazy state_a state_b
   \<and> deref (no_objects\<lparr>heap := [Some state_a]\<rparr>) 1 = Some state_a
   \<and> allocate_state fsm_lazy state_b (no_objects\<lparr>heap := [Some state_a]\<rparr>)
       = Inr (2, no_objects\<lparr>heap := [Some state_a, Some state_b]\<rparr>)
   \<and> transition fsm_lazy state_a state_b 7 (no_objects\<lparr>heap := [Some state_a]\<rparr>)
        (fsm\<lparr>p_current_state := 1\<rparr>)
       = Returns True (no_objects\<lparr>heap := [None, Some state_b]\<rparr>) (fsm\<lparr>p_current_state := 2\<rparr>)
           [On_exit state_a 7, Transition_op state_a state_b 7, On_enter state_b 7]
   \<and> state fsm_lazy state_b (no_objects\<lparr>heap := [None, Some state_b]\<rparr>)
        (fsm\<lparr>p_current_state := 2\<rparr>) = Inr 2
   \<and> transition fsm_ext state_1 state_2 7 state_storage (fsm\<lparr>p_current_state := 1\<rparr>)
       = Returns True state_storage (fsm\<lparr>p_current_state := 2\<rparr>)
           [On_exit state_1 7, Transition_op state_1 state_2 7, On_enter state_2 7]"
  using transition_registered_edge
    [where cfg = fsm_lazy and From = state_a and To = state_b and d = 7
       and w = "no_objects\<lparr>heap := [Some state_a]\<rparr>" and m = "fsm\<lparr>p_current_state := 1\<rparr>"
       and p = 2 and ?w1.0 = "no_objects\<lparr>heap := [Some state_a, Some state_b]\<rparr>"]
    transition_registered_edge
    [where cfg = fsm_ext and From = state_1 and To = state_2 and d = 7
       and w = state_storage and m = "fsm\<lparr>p_current_state := 1\<rparr>"
       and p = 2 and ?w1.0 = state_storage]
  by (simp add: fsm_lazy_def fsm_ext_def no_objects_def state_storage_def fsm_def
       transition_def is_valid_state_def dynamic_cast_def deref_def allocate_state_def
       state_of_pool_def new_def delete_def state_def)

text \<open>
  C2, as the claim states it, fails: the claim says that a transition declared from
  \<open>From\<close> returns false whenever the dynamic class of the current state object differs
  from \<open>From\<close>. The guard of \<open>transition\<close> is a \<open>dynamic_cast\<close>, which also accepts an
  object of a class derived from \<open>From\<close>: with the current state a \<open>child\<close> object, the
  transition declared from \<open>parent\<close> runs and returns true.
\<close>

theorem transition_from_subclass_counterexample:
  "exists fsm_family parent other
   \<and> is_valid_state fsm_family parent \<and> is_valid_state fsm_family other
   \<and> deref child_world (p_current_state (fsm\<lparr>p_current_state := 1\<rparr>)) = Some child
   \<and> child \<noteq> parent
   \<and> transition fsm_family parent other 7 child_world (fsm\<lparr>p_current_state := 1\<rparr>)
       = Returns True (child_world\<lparr>heap := [None, Some other]\<rparr>) (fsm\<lparr>p_current_state := 2\<rparr>)
           [On_exit child 7, Transition_op parent other 7, On_enter other 7]"
  by (simp add: fsm_family_def child_world_def fsm_def
       transition_def is_valid_state_def dynamic_cast_def deref_def allocate_state_def
       new_def delete_def)

text \<open>
  C2, amended: for every registered edge \<open>(From, To)\<close>, when the current state object is
  of a class that is neither \<open>From\<close> nor derived from \<open>From\<close>, \<open>transition<From, To>\<close>
  returns false, makes no call into user code and leaves the world and the machine as
  they were, so that introspection gives the same answer before and after.
\<close>

theorem transition_mismatch_returns_false:
  "exists cfg From To \<and> is_valid_state cfg From \<and> is_valid_state cfg To
   \<and> deref w (p_current_state m) = Some D \<and> D \<noteq> From \<and> \<not> derived_from cfg D From \<longrightarrow>
     (\<exists>w' m'. transition cfg From To d w m = Returns False w' m' []
        \<and> (\<forall>T. state cfg T w' m' = state cfg T w m) \<and> w' = w \<and> m' = m)"
  by (auto simp: transition_def dynamic_cast_def)

theorem transition_mismatch_returns_false_witness:
  "deref (no_objects\<lparr>heap := [Some state_b]\<rparr>) (p_current_state (fsm\<lparr>p_current_state := 1\<rparr>))
     = Some state_b
   \<and> transition fsm_lazy state_a state_c 7 (no_objects\<lparr>heap := [Some state_b]\<rparr>)
        (fsm\<lparr>p_current_state := 1\<rparr>)
     = Returns False (no_objects\<lparr>heap := [Some state_b]\<rparr>) (fsm\<lparr>p_current_state := 1\<rparr>) []"
  using transition_mismatch_returns_false
    [where cfg = fsm_lazy and From = state_a and To = state_c and D = state_b and d = 7
       and w = "no_objects\<lparr>heap := [Some state_b]\<rparr>" and m = "fsm\<lparr>p_current_state := 1\<rparr>"]
  by (simp add: fsm_lazy_def no_objects_def fsm_def is_valid_state_def deref_def)

text \<open>
  C3, as the claim states it, fails: the claim says that some invocation of \<open>transition\<close>
  runs the exit hook and then fails to allocate the target. \<open>transition\<close> obtains the
  handle of the target before it calls \<open>on_exit\<close>, so no invocation that throws has made
  any call into user code.
\<close>

theorem no_exit_before_failed_allocation:
  "\<not> (\<exists>cfg From To d w m e w' m' cs.
        transition cfg From To d w m = Throws e w' m' cs \<and> cs \<noteq> ([] :: 'c call list))"
  by (auto simp: transition_def split: sum.splits option.splits if_splits prod.splits)

text \<open>
  C3, amended: in every invocation of \<open>transition<From, To>\<close> in which the allocation of
  the \<open>To\<close> handle fails (the allocator returns a null handle once the current state
  has passed the cast to \<open>From\<close>), the error is thrown before the exit hook or any other
  call into user code, and the machine keeps its current state; and whenever
  \<open>transition\<close> throws its own \<open>std::runtime_error\<close>, it is this one, thrown with no call
  made. A failed allocation never comes after an exit hook.
\<close>

theorem transition_throws_before_hooks:
  "(exists cfg From To \<and> is_valid_state cfg From \<and> is_valid_state cfg To
    \<and> dynamic_cast cfg w From (p_current_state m) = Inr q \<and> q \<noteq> 0
    \<and> allocate_state cfg To w = Inr (0, w1) \<longrightarrow>
      transition cfg From To d w m = Throws Failed_to_allocate_new_state w1 m [])
   \<and> (transition cfg From To d w m = Throws e w' m' cs \<longrightarrow>
        e = Failed_to_allocate_new_state \<and> cs = [] \<and> m' = m
        \<and> (\<exists>w2. allocate_state cfg To w = Inr (0, w2) \<and> w' = w2))"
  by (auto simp: transition_def dynamic_cast_def
      split: sum.splits option.splits if_splits prod.splits)

theorem transition_throws_before_hooks_witness:
  "exists fsm_ext state_1 state_2
   \<and> is_valid_state fsm_ext state_1 \<and> is_valid_state fsm_ext state_2
   \<and> dynamic_cast fsm_ext state_storage_hole state_1 1 = Inr 1
   \<and> allocate_state fsm_ext state_2 state_storage_hole = Inr (0, state_storage_hole)
   \<and> transition fsm_ext state_1 state_2 7 state_storage_hole (fsm\<lparr>p_current_state := 1\<rparr>)
     = Throws Failed_to_allocate_new_state state_storage_hole (fsm\<lparr>p_current_state := 1\<rparr>) []"
  using transition_throws_before_hooks
    [where cfg = fsm_ext and From = state_1 and To = state_2 and d = 7
       and w = state_storage_hole and m = "fsm\<lparr>p_current_state := 1\<rparr>"
       and q = 1 and ?w1.0 = state_storage_hole
       and e = Failed_to_allocate_new_state and w' = state_storage_hole
       and m' = "fsm\<lparr>p_current_state := 1\<rparr>" and cs = "[]"]
  by (simp add: fsm_ext_def state_storage_hole_def fsm_def is_valid_state_def
       dynamic_cast_def deref_def allocate_state_def state_of_pool_def)

text \<open>
  C4: when the allocator returns a null handle, \<open>start<Initial>\<close> throws, and so does
  \<open>transition<From, To>\<close> once the current state has passed the cast to \<open>From\<close>; when the
  cast fails, \<open>transition\<close> returns false and does not throw.
\<close>

theorem null_handle_raises:
  "(is_valid_state cfg S \<and> allocate_state cfg S w = Inr (0, w1) \<longrightarrow>
      start cfg S d w m = Throws State_pointer_is_null w1 (m\<lparr>p_current_state := 0\<rparr>) [])
   \<and> (exists cfg From To \<and> is_valid_state cfg From \<and> is_valid_state cfg To
       \<and> dynamic_cast cfg w From (p_current_state m) = Inr q \<and> q \<noteq> 0
       \<and> allocate_state cfg To w = Inr (0, w1) \<longrightarrow>
      transition cfg From To d w m = Throws Failed_to_allocate_new_state w1 m [])
   \<and> (exists cfg From To \<and> is_valid_state cfg From \<and> is_valid_state cfg To
       \<and> dynamic_cast cfg w From (p_current_state m) = Inr 0 \<longrightarrow>
      transition cfg From To d w m = Returns False w m [])"
  by (auto simp: start_def transition_def dynamic_cast_def split: option.splits if_splits)

theorem null_handle_raises_witness:
  "allocate_state fsm_ext state_2 state_storage_hole = Inr (0, state_storage_hole)
   \<and> start fsm_ext state_2 7 state_storage_hole fsm
     = Throws State_pointer_is_null state_storage_hole fsm []
   \<and> dynamic_cast fsm_ext state_storage_hole state_1 1 = Inr 1
   \<and> transition fsm_ext state_1 state_2 7 state_storage_hole (fsm\<lparr>p_current_state := 1\<rparr>)
     = Throws Failed_to_allocate_new_state state_storage_hole (fsm\<lparr>p_current_state := 1\<rparr>) []
   \<and> dynamic_cast fsm_ext state_storage_hole state_2 1 = Inr 0
   \<and> transition fsm_ext state_2 state_1 7 state_storage_hole (fsm\<lparr>p_current_state := 1\<rparr>)
     = Returns False state_storage_hole (fsm\<lparr>p_current_state := 1\<rparr>) []"
  using null_handle_raises
    [where cfg = fsm_ext and S = state_2 and w = state_storage_hole
       and ?w1.0 = state_storage_hole and d = 7 and m = fsm]
    null_handle_raises
    [where cfg = fsm_ext and From = state_1 and To = state_2 and w = state_storage_hole
       and ?w1.0 = state_storage_hole and d = 7 and m = "fsm\<lparr>p_current_state := 1\<rparr>"
       and q = 1]
    null_handle_raises
    [where cfg = fsm_ext and From = state_2 and To = state_1 and w = state_storage_hole
       and d = 7 and m = "fsm\<lparr>p_current_state := 1\<rparr>"]
  by (simp add: fsm_ext_def state_storage_hole_def fsm_def is_valid_state_def allocate_state_def
       state_of_pool_def dynamic_cast_def deref_def)

text \<open>
  C10: for every registered edge \<open>(From, To)\<close>, \<open>transition<From, To>\<close> on a machine
  without a current state returns false and changes nothing; and no invocation of
  \<open>transition\<close> at all throws the error of its null-pointer branch, which the cast
  before it makes unreachable.
\<close>

theorem transition_without_current_state:
  "(exists cfg From To \<and> is_valid_state cfg From \<and> is_valid_state cfg To
    \<and> p_current_state m = 0 \<longrightarrow>
      transition cfg From To d w m = Returns False w m [])
   \<and> transition cfg F T d' w0 m0 \<noteq> Throws State_pointer_is_null w' m' cs"
  by (auto simp: transition_def dynamic_cast_def
      split: sum.splits option.splits if_splits prod.splits)

theorem transition_without_current_state_witness:
  "exists fsm_lazy state_a state_b
   \<and> is_valid_state fsm_lazy state_a \<and> is_valid_state fsm_lazy state_b
   \<and> p_current_state fsm = 0
   \<and> transition fsm_lazy state_a state_b 7 no_objects fsm = Returns False no_objects fsm []"
  using transition_without_current_state
    [where cfg = fsm_lazy and From = state_a and To = state_b and m = fsm and d = 7
       and w = no_objects]
  by (simp add: fsm_lazy_def fsm_def is_valid_state_def)

subsection \<open>Starting and stopping\<close>

text \<open>
  C6, as the claim states it, fails: the claim says that \<open>start<S>\<close> followed by \<open>stop\<close>
  calls \<open>on_enter\<close> and then \<open>on_exit\<close> of \<open>S\<close> for every declared state class. When
  the pool of a preallocated machine has a null slot for \<open>S\<close>, \<open>start<S>\<close> throws before
  any hook, leaving no current state, so that a \<open>stop\<close> after it calls nothing either.
\<close>

theorem start_allocation_counterexample:
  "is_valid_state fsm_ext state_2
   \<and> and_then (start fsm_ext state_2 7 state_storage_hole fsm) (stop fsm_ext 7)
       = Throws State_pointer_is_null state_storage_hole fsm []
   \<and> stop fsm_ext 7 state_storage_hole fsm = Returns () state_storage_hole fsm []"
  by (simp add: fsm_ext_def state_storage_hole_def fsm_def
       start_def stop_def is_valid_state_def allocate_state_def state_of_pool_def)

text \<open>
  C6, amended: for every declared state class \<open>S\<close> for which the allocator yields a
  handle to an object of class \<open>S\<close> (and, for an internal machine, in a world whose pool
  is intact), \<open>start<S>(data)\<close> followed by \<open>stop(data)\<close> makes exactly two calls into
  user code: \<open>on_enter\<close> of \<open>S\<close> and then \<open>on_exit\<close> of \<open>S\<close>, both with \<open>data\<close>; the
  machine is left without a current state.
\<close>

theorem start_then_stop:
  "is_valid_state cfg S \<and> allocate_state cfg S w = Inr (p, w1) \<and> deref w1 p = Some S
   \<and> (type cfg = INTERNAL \<longrightarrow> pool_intact w) \<longrightarrow>
     (\<exists>w2. and_then (start cfg S d w m) (stop cfg d)
              = Returns () w2 (m\<lparr>p_current_state := 0\<rparr>) [On_enter S d, On_exit S d])"
proof (intro impI, elim conjE)
  assume v: "is_valid_state cfg S" and al: "allocate_state cfg S w = Inr (p, w1)"
    and new: "deref w1 p = Some S" and intact: "type cfg = INTERNAL \<longrightarrow> pool_intact w"
  have p0: "p \<noteq> 0" using new by (auto dest: deref_SomeD)
  have st: "start cfg S d w m = Returns () w1 (m\<lparr>p_current_state := p\<rparr>) [On_enter S d]"
    using v al new p0 by (simp add: start_def)
  obtain w2 where
    "delete_current_state cfg w1 (m\<lparr>p_current_state := p\<rparr>) = Inr (w2, m\<lparr>p_current_state := 0\<rparr>)"
    and "\<exists>w3. delete_pool cfg w2 = Inr w3"
  proof (cases "type cfg")
    case LAZY
    from delete_live [OF new] obtain w2 where "delete p w1 = Inr w2" by blast
    then show ?thesis using that [of w2] LAZY by (simp add: delete_current_state_def delete_pool_def)
  next
    case PREALLOCED
    then show ?thesis using that [of w1] by (simp add: delete_current_state_def delete_pool_def)
  next
    case INTERNAL
    with intact al obtain pool where "internal_pool w1 = Some pool" "distinct pool"
      "\<forall>q\<in>set pool. deref w1 q \<noteq> None"
      using internal_allocate_intact [of cfg w S p w1] by blast
    then have "\<exists>w3. delete_pool cfg w1 = Inr w3" by (rule delete_pool_intact)
    then show ?thesis using that [of w1] INTERNAL by (simp add: delete_current_state_def)
  qed
  then obtain w3 where
    "stop cfg d w1 (m\<lparr>p_current_state := p\<rparr>) = Returns () w3 (m\<lparr>p_current_state := 0\<rparr>) [On_exit S d]"
    using new p0 by (auto simp: stop_def)
  then show "\<exists>w2. and_then (start cfg S d w m) (stop cfg d)
              = Returns () w2 (m\<lparr>p_current_state := 0\<rparr>) [On_enter S d, On_exit S d]"
    using st by simp
qed

theorem start_then_stop_witness:
  "is_valid_state fsm_int state_1 \<and> pool_intact no_objects
   \<and> allocate_state fsm_int state_1 no_objects = Inr (1, internal_storage)
   \<and> and_then (start fsm_int state_1 7 no_objects fsm) (stop fsm_int 7)
       = Returns () (no_objects\<lparr>heap := [None, None]\<rparr>) fsm [On_enter state_1 7, On_exit state_1 7]
   \<and> and_then (start fsm_lazy state_a 7 no_objects fsm) (stop fsm_lazy 7)
       = Returns () (no_objects\<lparr>heap := [None]\<rparr>) fsm [On_enter state_a 7, On_exit state_a 7]
   \<and> and_then (start fsm_ext state_2 7 state_storage fsm) (stop fsm_ext 7)
       = Returns () state_storage fsm [On_enter state_2 7, On_exit state_2 7]"
  using start_then_stop
    [where cfg = fsm_int and S = state_1 and d = 7 and w = no_objects and m = fsm
       and p = 1 and ?w1.0 = internal_storage]
    start_then_stop
    [where cfg = fsm_lazy and S = state_a and d = 7 and w = no_objects and m = fsm
       and p = 1 and ?w1.0 = "no_objects\<lparr>heap := [Some state_a]\<rparr>"]
    start_then_stop
    [where cfg = fsm_ext and S = state_2 and d = 7 and w = state_storage and m = fsm
       and p = 2 and ?w1.0 = state_storage]
  by (simp add: fsm_lazy_def fsm_ext_def fsm_int_def no_objects_def state_storage_def
       internal_storage_def fsm_def pool_intact_def
       start_def stop_def is_valid_state_def allocate_state_def get_pool_def new_def
       state_of_pool_def deref_def delete_current_state_def delete_pool_def delete_def)

text \<open>
  C7: \<open>stop\<close> on a machine without a current state returns at once: no call into user
  code, the world (every object and the pool) and the machine unchanged. After any
  \<open>stop\<close> that returns, the machine is in that condition, so a second \<open>stop\<close> calls no
  exit hook and releases nothing.
\<close>

theorem stop_idempotent:
  "(p_current_state m = 0 \<longrightarrow> stop cfg d w m = Returns () w m [])
   \<and> (stop cfg d w m = Returns u w' m' cs \<longrightarrow>
        p_current_state m' = 0 \<and> stop cfg d' w' m' = Returns () w' m' [])"
  by (auto simp: stop_def delete_current_state_def
      split: sum.splits option.splits if_splits prod.splits)

theorem stop_idempotent_witness:
  "p_current_state fsm = 0
   \<and> stop fsm_lazy 7 no_objects fsm = Returns () no_objects fsm []
   \<and> stop fsm_lazy 7 (no_objects\<lparr>heap := [Some state_a]\<rparr>) (fsm\<lparr>p_current_state := 1\<rparr>)
       = Returns () (no_objects\<lparr>heap := [None]\<rparr>) fsm [On_exit state_a 7]
   \<and> stop fsm_lazy 7 (no_objects\<lparr>heap := [None]\<rparr>) fsm
       = Returns () (no_objects\<lparr>heap := [None]\<rparr>) fsm []"
  using stop_idempotent [where m = fsm and cfg = fsm_lazy and d = 7 and w = no_objects]
    stop_idempotent
    [where m = "fsm\<lparr>p_current_state := 1\<rparr>" and cfg = fsm_lazy and d = 7
       and w = "no_objects\<lparr>heap := [Some state_a]\<rparr>" and u = "()"
       and w' = "no_objects\<lparr>heap := [None]\<rparr>" and m' = fsm
       and cs = "[On_exit state_a 7]" and d' = 7]
  by (simp add: fsm_lazy_def no_objects_def fsm_def
       stop_def deref_def delete_current_state_def delete_pool_def delete_def)

subsection \<open>Saving and loading\<close>

text \<open>
  C5: for every machine and every buffer of at least \<open>sizeof(p_current_state)\<close> bytes,
  \<open>save\<close> into the buffer followed by \<open>load\<close> from it on another machine (a fresh one
  included) gives a machine with the pointer that the first one had before \<open>save\<close>:
  introspection reports the same for every state class, and every transition has the
  same outcome as on the machine before \<open>save\<close>.
\<close>

theorem save_load_round_trip:
  "sizeof_ptr \<le> datalen \<and> sizeof_ptr \<le> length buf \<longrightarrow>
     (\<exists>buf' m1.
        save (Some buf) datalen w m
          = Returns (sizeof_ptr, Some buf') w (m\<lparr>p_current_state := 0\<rparr>) []
        \<and> length buf' = length buf
        \<and> load (Some buf') datalen w m0 = Returns sizeof_ptr w m1 []
        \<and> p_current_state m1 = p_current_state m
        \<and> (\<forall>T. state cfg T w m1 = state cfg T w m)
        \<and> (\<forall>From To d. transition cfg From To d w m1 = transition cfg From To d w m))"
  by (cases m, cases m0)
    (auto simp: save_def load_def bytes_ptr_ptr_bytes length_ptr_bytes state_def)

theorem save_load_round_trip_witness:
  "sizeof_ptr \<le> 8
   \<and> save (Some [0, 0, 0, 0, 0, 0, 0, 0]) 8 internal_storage (fsm\<lparr>p_current_state := 2\<rparr>)
       = Returns (8, Some [2, 0, 0, 0, 0, 0, 0, 0]) internal_storage fsm []
   \<and> load (Some [2, 0, 0, 0, 0, 0, 0, 0]) 8 internal_storage fsm
       = Returns 8 internal_storage (fsm\<lparr>p_current_state := 2\<rparr>) []
   \<and> state fsm_int state_2 internal_storage (fsm\<lparr>p_current_state := 2\<rparr>) = Inr 2
   \<and> transition fsm_int state_2 state_1 7 internal_storage (fsm\<lparr>p_current_state := 2\<rparr>)
       = Returns True internal_storage (fsm\<lparr>p_current_state := 1\<rparr>)
           [On_exit state_2 7, Transition_op state_2 state_1 7, On_enter state_1 7]"
  using save_load_round_trip
    [where datalen = 8 and buf = "[0, 0, 0, 0, 0, 0, 0, 0]" and w = internal_storage
       and m = "fsm\<lparr>p_current_state := 2\<rparr>" and ?m0.0 = fsm and cfg = fsm_int]
  by (simp add: fsm_int_def fsm_ext_def internal_storage_def fsm_def
       save_def load_def sizeof_ptr_def ptr_bytes_def bytes_ptr_def le_bytes_numeral
       state_def transition_def is_valid_state_def dynamic_cast_def deref_def
       allocate_state_def get_pool_def state_of_pool_def)

text \<open>
  C8: with a null buffer pointer, or a length below \<open>sizeof(p_current_state)\<close>, \<open>save\<close>
  and \<open>load\<close> return 0 and leave the buffer, the world and the machine as they were;
  neither throws.
\<close>

theorem save_load_undersized:
  "pdata = None \<or> datalen < sizeof_ptr \<longrightarrow>
     save pdata datalen w m = Returns (0, pdata) w m []
     \<and> load pdata datalen w m = Returns 0 w m []"
  by (auto simp: save_def load_def split: option.splits)

theorem save_load_undersized_witness:
  "(7::nat) < sizeof_ptr
   \<and> save (Some [1, 2, 3, 4, 5, 6, 7]) 7 state_storage (fsm\<lparr>p_current_state := 2\<rparr>)
       = Returns (0, Some [1, 2, 3, 4, 5, 6, 7]) state_storage (fsm\<lparr>p_current_state := 2\<rparr>) []
   \<and> load (Some [1, 2, 3, 4, 5, 6, 7]) 7 state_storage (fsm\<lparr>p_current_state := 2\<rparr>)
       = Returns 0 state_storage (fsm\<lparr>p_current_state := 2\<rparr>) []
   \<and> save None 8 state_storage (fsm\<lparr>p_current_state := 2\<rparr>)
       = Returns (0, None) state_storage (fsm\<lparr>p_current_state := 2\<rparr>) []
   \<and> load None 8 state_storage (fsm\<lparr>p_current_state := 2\<rparr>)
       = Returns 0 state_storage (fsm\<lparr>p_current_state := 2\<rparr>) []"
  using save_load_undersized
    [where pdata = "Some [1, 2, 3, 4, 5, 6, 7]" and datalen = 7 and w = state_storage
       and m = "fsm\<lparr>p_current_state := 2\<rparr>"]
    save_load_undersized
    [where pdata = None and datalen = 8 and w = state_storage
       and m = "fsm\<lparr>p_current_state := 2\<rparr>"]
  by (simp add: sizeof_ptr_def)

text \<open>
  C9: after a \<open>save\<close> that returns a nonzero byte count the machine has no current
  state: its pointer is null, introspection returns null for every state class, and
  the destructor returns without releasing anything (the world is unchanged). \<open>load\<close>
  makes no call into user code and, when it returns a nonzero byte count, has set the
  current state to the pointer read from the buffer.
\<close>

theorem save_clears_load_installs:
  "(save pdata datalen w m = Returns (n, pdata') w' m' cs \<and> n \<noteq> 0 \<longrightarrow>
      p_current_state m' = 0 \<and> w' = w \<and> cs = []
      \<and> state cfg T w' m' = Inr 0
      \<and> destroy cfg w' m' = Returns () w' m' [])
   \<and> (load pdata datalen w m = Returns n w' m' cs \<longrightarrow>
        cs = [] \<and> w' = w
        \<and> (n \<noteq> 0 \<longrightarrow> (\<exists>buf. pdata = Some buf \<and> p_current_state m' = bytes_ptr buf)))"
  by (auto simp: save_def load_def state_def dynamic_cast_def destroy_def
      split: option.splits if_splits)

theorem save_clears_load_installs_witness:
  "save (Some [0, 0, 0, 0, 0, 0, 0, 0]) 8 internal_storage (fsm\<lparr>p_current_state := 2\<rparr>)
     = Returns (8, Some [2, 0, 0, 0, 0, 0, 0, 0]) internal_storage fsm []
   \<and> state fsm_int state_2 internal_storage fsm = Inr 0
   \<and> destroy fsm_int internal_storage fsm = Returns () internal_storage fsm []
   \<and> load (Some [2, 0, 0, 0, 0, 0, 0, 0]) 8 internal_storage fsm
     = Returns 8 internal_storage (fsm\<lparr>p_current_state := 2\<rparr>) []
   \<and> bytes_ptr [2, 0, 0, 0, 0, 0, 0, 0] = 2"
  using save_clears_load_installs
    [where pdata = "Some [0, 0, 0, 0, 0, 0, 0, 0]" and datalen = 8 and w = internal_storage
       and m = "fsm\<lparr>p_current_state := 2\<rparr>" and n = 8
       and pdata' = "Some [2, 0, 0, 0, 0, 0, 0, 0]" and w' = internal_storage and m' = fsm
       and cs = "[]" and cfg = fsm_int and T = state_2]
    save_clears_load_installs
    [where pdata = "Some [2, 0, 0, 0, 0, 0, 0, 0]" and datalen = 8 and w = internal_storage
       and m = fsm and n = 8 and w' = internal_storage
       and m' = "fsm\<lparr>p_current_state := 2\<rparr>" and cs = "[]"]
  by (simp add: save_def load_def sizeof_ptr_def ptr_bytes_def bytes_ptr_def fsm_def
       le_bytes_numeral)

end
